theory Spec2Isabelle
  imports Main
begin

section \<open>Data model\<close>

text \<open>
  The component \<open>MusicGenerator\<close> keeps a list of generation requests in React state
  (\<open>history\<close>) and mirrors it, JSON-encoded, under one local-storage key
  (\<open>HISTORY_KEY\<close>). A JavaScript object may lack any of its fields, and the code reads
  most of them defensively (\<open>item.id || ''\<close>, \<open>item.timestamp || Date.now()\<close>), so every
  field of an item is an option: \<open>None\<close> is a missing or \<open>undefined\<close> field.
  Timestamps are epoch milliseconds, modelled as integers (\<open>NaN\<close> is not modelled).
\<close>

text \<open>
  Modelled from the spec: the type \<open>Song\<close> of \<open>types/api\<close>, which is imported by the
  component but is not among the sources. The fields are the ones the spec lists and
  the component reads. No operation of the store inspects a song.
\<close>

record song =
  song_id :: string
  title :: string
  song_tags :: "string list"
  song_path :: string
  image_path :: string
  finished :: bool

text \<open>The type \<open>HistoryItemInput\<close>; \<open>item_id\<close> is the field \<open>id\<close>.\<close>

record item =
  item_id :: "string option"
  prompt :: "string option"
  status :: "string option"
  timestamp :: "int option"
  completedAt :: "int option"
  songs :: "song list option"
  error :: "string option"
  tags :: "string option"

text \<open>
  An object literal passed as \<open>updates: Partial<GenerationHistoryItem>\<close>. A key can be
  absent (\<open>None\<close>) or present; a present key can hold \<open>undefined\<close> (\<open>Some None\<close>), which
  the spread \<open>{ ...item, ...updates }\<close> copies over the item's value like any other.
\<close>

record partial =
  p_id :: "string option option"
  p_prompt :: "string option option"
  p_status :: "string option option"
  p_timestamp :: "int option option"
  p_completedAt :: "int option option"
  p_songs :: "song list option option"
  p_error :: "string option option"
  p_tags :: "string option option"

text \<open>
  The state of the component that the history logic reads and writes: the React state
  cells \<open>history\<close>, \<open>isLoading\<close> and \<open>pendingCount\<close>, the set behind
  \<open>completedTasksRef\<close>, and the local-storage cell of \<open>HISTORY_KEY\<close> (\<open>None\<close>: the key is
  not set). Local storage holds strings; \<open>JSON.stringify\<close> and \<open>JSON.parse\<close> are
  parameters of the operations that call them.
\<close>

record app =
  history :: "item list"
  storage :: "string option"
  isLoading :: bool
  pendingCount :: int
  completedTasks :: "string set"

definition MAX_HISTORY_ITEMS :: nat where
  "MAX_HISTORY_ITEMS = 5"

section \<open>The history store\<close>

text \<open>
  The callback of the \<open>map\<close> in \<open>updateHistory\<close>. \<open>x || d\<close> yields \<open>d\<close> when \<open>x\<close> is
  falsy: a missing field, the empty string, or the number zero. \<open>now\<close> is the reading
  of \<open>Date.now()\<close>; one call of \<open>updateHistory\<close> is given one reading.
\<close>

definition validItem :: "int \<Rightarrow> item \<Rightarrow> item" where
  "validItem now it =
     it\<lparr> item_id := Some (case item_id it of None \<Rightarrow> [] | Some s \<Rightarrow> s),
         prompt := Some (case prompt it of None \<Rightarrow> [] | Some s \<Rightarrow> s),
         status := Some (case status it of
                           None \<Rightarrow> ''pending''
                         | Some s \<Rightarrow> if s \<in> set [''pending'', ''completed'', ''failed'']
                                     then s else ''pending''),
         timestamp := Some (case timestamp it of
                              None \<Rightarrow> now
                            | Some t \<Rightarrow> if t = 0 then now else t) \<rparr>"

text \<open>
  \<open>updateHistory\<close>: \<open>setHistory(validHistory)\<close> and
  \<open>localStorage.setItem(HISTORY_KEY, JSON.stringify(validHistory))\<close>.
\<close>

definition updateHistory :: "(item list \<Rightarrow> string) \<Rightarrow> int \<Rightarrow> item list \<Rightarrow> app \<Rightarrow> app" where
  "updateHistory stringify now newHistory st =
     (let validHistory = map (validItem now) newHistory
      in st\<lparr> history := validHistory, storage := Some (stringify validHistory) \<rparr>)"

text \<open>
  \<open>addToHistory\<close>, \<open>removeFromHistory\<close>, \<open>clearHistory\<close> and \<open>updateHistoryItem\<close> read the
  variable \<open>history\<close> of the render that created them. That list is the argument \<open>h\<close>;
  for a handler of the current render it is \<open>history st\<close>.
\<close>

definition addToHistory :: "(item list \<Rightarrow> string) \<Rightarrow> int \<Rightarrow> item list \<Rightarrow> item \<Rightarrow> app \<Rightarrow> app" where
  "addToHistory stringify now h it st =
     (let newItem = it\<lparr> status := Some ''pending'', completedAt := None \<rparr>;
          newHistory = newItem # h
      in updateHistory stringify now newHistory st)"

definition removeFromHistory :: "(item list \<Rightarrow> string) \<Rightarrow> int \<Rightarrow> item list \<Rightarrow> string \<Rightarrow> app \<Rightarrow> app" where
  "removeFromHistory stringify now h i st =
     (let newHistory = filter (\<lambda>it. item_id it \<noteq> Some i) h
      in updateHistory stringify now newHistory st)"

definition clearHistory :: "(item list \<Rightarrow> string) \<Rightarrow> int \<Rightarrow> app \<Rightarrow> app" where
  "clearHistory stringify now st =
     (updateHistory stringify now [] st)\<lparr> completedTasks := {} \<rparr>"

text \<open>The spread \<open>{ ...item, ...updates }\<close>.\<close>

definition over :: "'a option option \<Rightarrow> 'a option \<Rightarrow> 'a option" where
  "over u old = (case u of None \<Rightarrow> old | Some v \<Rightarrow> v)"

definition spread :: "item \<Rightarrow> partial \<Rightarrow> item" where
  "spread it u =
     it\<lparr> item_id := over (p_id u) (item_id it),
         prompt := over (p_prompt u) (prompt it),
         status := over (p_status u) (status it),
         timestamp := over (p_timestamp u) (timestamp it),
         completedAt := over (p_completedAt u) (completedAt it),
         songs := over (p_songs u) (songs it),
         error := over (p_error u) (error it),
         tags := over (p_tags u) (tags it) \<rparr>"

definition updateHistoryItem :: "(item list \<Rightarrow> string) \<Rightarrow> int \<Rightarrow> item list \<Rightarrow> string \<Rightarrow> partial \<Rightarrow> app \<Rightarrow> app" where
  "updateHistoryItem stringify now h i updates st =
     (let newHistory = map (\<lambda>it. if item_id it = Some i then spread it updates else it) h
      in updateHistory stringify now newHistory st)"

text \<open>
  The form of an item that \<open>updateHistory\<close> has written: all four defaulted fields are
  present, the status is one of the three values, the timestamp is not zero.
\<close>

definition savedItem :: "item \<Rightarrow> bool" where
  "savedItem it =
     (item_id it \<noteq> None \<and> prompt it \<noteq> None \<and>
      (case status it of None \<Rightarrow> False
       | Some s \<Rightarrow> s \<in> set [''pending'', ''completed'', ''failed'']) \<and>
      (case timestamp it of None \<Rightarrow> False | Some t \<Rightarrow> t \<noteq> 0))"

definition saved :: "item list \<Rightarrow> bool" where
  "saved h = list_all savedItem h"

section \<open>Loading the history on mount\<close>

text \<open>
  The first effect of the component. \<open>parse s = None\<close> stands for every way the body of
  the \<open>try\<close> block throws: \<open>JSON.parse\<close> rejects the text, or the parsed value is not an
  array of objects so that \<open>parsedHistory.map\<close> or \<open>item.status\<close> throws. The empty
  string is falsy, so \<open>if (savedHistory)\<close> skips it without parsing.
\<close>

definition fixStatus :: "item \<Rightarrow> item" where
  "fixStatus it =
     it\<lparr> status := Some (case status it of
                           None \<Rightarrow> ''pending''
                         | Some s \<Rightarrow> if s = ''completed'' \<or> s = ''failed'' then s
                                     else ''pending'') \<rparr>"

definition loadHistory :: "(string \<Rightarrow> item list option) \<Rightarrow> app \<Rightarrow> app" where
  "loadHistory parse st =
     (case storage st of
        None \<Rightarrow> st
      | Some savedHistory \<Rightarrow>
          if savedHistory = [] then st
          else (case parse savedHistory of
                  None \<Rightarrow> st\<lparr> storage := None \<rparr>
                | Some parsedHistory \<Rightarrow> st\<lparr> history := map fixStatus parsedHistory \<rparr>))"

text \<open>The initial values of the \<open>useState\<close> and \<open>useRef\<close> cells, over a given local storage.\<close>

definition initialState :: "string option \<Rightarrow> app" where
  "initialState stored =
     \<lparr> history = [], storage = stored, isLoading = False, pendingCount = 0,
       completedTasks = {} \<rparr>"

definition mount :: "(string \<Rightarrow> item list option) \<Rightarrow> string option \<Rightarrow> app" where
  "mount parse stored = loadHistory parse (initialState stored)"

section \<open>The periodic reconciliation poller\<close>

text \<open>
  An HTTP call either throws or returns the body of the response.
\<close>

datatype 'a http = Threw | Response 'a

text \<open>
  The part of \<open>TaskResponse\<close> (declared in \<open>types/api\<close>, not among the sources) that the
  poller reads: \<open>taskDetails.data.status\<close>, \<open>taskDetails.data.output.songs\<close> and
  \<open>taskDetails.data.error?.message\<close>. A reply may come without \<open>output\<close>
  (\<open>task_output = None\<close>) and an \<open>output\<close> without \<open>songs\<close> (\<open>output_songs = None\<close>).
\<close>

record taskOutput =
  output_songs :: "song list option"

record task =
  task_status :: string
  task_output :: "taskOutput option"
  error_message :: "string option"

text \<open>A value interpolated into a template literal.\<close>

definition interpolate :: "string option \<Rightarrow> string" where
  "interpolate v = (case v of None \<Rightarrow> ''undefined'' | Some s \<Rightarrow> s)"

definition fetchTaskDetails :: "(string \<Rightarrow> task http) \<Rightarrow> string option \<Rightarrow> task option" where
  "fetchTaskDetails get taskId =
     (case get (''https://api.piapi.ai/api/v1/task/'' @ interpolate taskId) of
        Threw \<Rightarrow> None
      | Response d \<Rightarrow> Some d)"

text \<open>
  The callback of the \<open>map\<close> in \<open>updateHistoryWithCompletedTasks\<close>, and the condition
  under which it sets \<open>hasUpdates\<close>. One round of the poller is given one reading
  \<open>now\<close> of the clock. The tone played on completion is not part of the state.
  The callback returns \<open>None\<close> when it throws: for a completed reply the expression
  \<open>taskDetails.data.output.songs || []\<close> reads \<open>songs\<close> of \<open>output\<close> without a guard,
  a TypeError when the reply has no \<open>output\<close>. For a failed reply \<open>output\<close> is not read.
\<close>

definition checkItem :: "(string \<Rightarrow> task http) \<Rightarrow> int \<Rightarrow> item \<Rightarrow> item option" where
  "checkItem get now it =
     (if status it = Some ''pending'' then
        (case fetchTaskDetails get (item_id it) of
           None \<Rightarrow> Some it
         | Some taskDetails \<Rightarrow>
             (let isCompleted = (task_status taskDetails = ''completed'');
                  isFailed = (task_status taskDetails = ''failed'')
              in if isCompleted \<or> isFailed then
                   (case (if isCompleted
                          then (case task_output taskDetails of
                                  None \<Rightarrow> None
                                | Some out \<Rightarrow>
                                    Some (Some (case output_songs out of
                                                  None \<Rightarrow> [] | Some ss \<Rightarrow> ss)))
                          else Some None) of
                      None \<Rightarrow> None
                    | Some songsValue \<Rightarrow>
                        Some (it\<lparr> status := Some (if isCompleted then ''completed''
                                                   else ''failed''),
                                  songs := songsValue,
                                  error := (if isFailed then error_message taskDetails
                                            else None),
                                  completedAt := Some now \<rparr>))
                 else Some it))
      else Some it)"

definition setsHasUpdates :: "(string \<Rightarrow> task http) \<Rightarrow> item \<Rightarrow> bool" where
  "setsHasUpdates get it =
     (status it = Some ''pending'' \<and>
      (case fetchTaskDetails get (item_id it) of
         None \<Rightarrow> False
       | Some taskDetails \<Rightarrow>
           task_status taskDetails = ''completed'' \<or> task_status taskDetails = ''failed''))"

text \<open>
  One round of the poller. \<open>Promise.all\<close> rejects when a callback throws (\<open>those\<close>
  yields \<open>None\<close>); the function then ends there and saves nothing.
\<close>

definition updateHistoryWithCompletedTasks ::
  "(string \<Rightarrow> item list option) \<Rightarrow> (item list \<Rightarrow> string) \<Rightarrow> (string \<Rightarrow> task http) \<Rightarrow> int \<Rightarrow> app \<Rightarrow> app" where
  "updateHistoryWithCompletedTasks parse stringify get now st =
     (case storage st of
        None \<Rightarrow> st
      | Some savedHistory \<Rightarrow>
          if savedHistory = [] then st
          else (case parse savedHistory of
                  None \<Rightarrow> st
                | Some parsedHistory \<Rightarrow>
                    (let hasUpdates = list_ex (setsHasUpdates get) parsedHistory
                     in case those (map (checkItem get now) parsedHistory) of
                          None \<Rightarrow> st
                        | Some updatedHistory \<Rightarrow>
                            if hasUpdates then updateHistory stringify now updatedHistory st
                            else st)))"

text \<open>The effect that runs the poller: only while \<open>history\<close> holds a pending item.\<close>

definition hasPendingTasks :: "item list \<Rightarrow> bool" where
  "hasPendingTasks h = list_ex (\<lambda>it. status it = Some ''pending'') h"

definition historyEffect ::
  "(string \<Rightarrow> item list option) \<Rightarrow> (item list \<Rightarrow> string) \<Rightarrow> (string \<Rightarrow> task http) \<Rightarrow> int \<Rightarrow> app \<Rightarrow> app" where
  "historyEffect parse stringify get now st =
     (if hasPendingTasks (history st)
      then updateHistoryWithCompletedTasks parse stringify get now st
      else st)"

section \<open>Submitting a generation\<close>

record selectedOptions =
  genre :: string
  voiceType :: string
  mood :: string
  era :: string

text \<open>The object \<open>requestData\<close>; \<open>in_prompt\<close> and \<open>in_tags\<close> are its fields \<open>prompt\<close> and \<open>tags\<close>.\<close>

record input =
  gpt_description_prompt :: string
  lyrics_type :: string
  make_instrumental :: bool
  negative_tags :: string
  in_prompt :: string
  seed :: nat
  in_tags :: string

record request =
  model :: string
  task_type :: string
  input :: input

text \<open>\<open>Array.prototype.join\<close> on an array of strings.\<close>

fun join :: "string \<Rightarrow> string list \<Rightarrow> string" where
  "join sep [] = []"
| "join sep [x] = x"
| "join sep (x # y # ys) = x @ sep @ join sep (y # ys)"

definition isFemaleSinger :: "selectedOptions \<Rightarrow> bool" where
  "isFemaleSinger opts = (voiceType opts = ''female'')"

definition voiceTags :: "selectedOptions \<Rightarrow> string list" where
  "voiceTags opts =
     (if isFemaleSinger opts then [''female_vocals'', ''female_voice'', ''female_singer'']
      else [''male_vocals'', ''male_voice'', ''male_singer''])"

definition negativeTags :: "selectedOptions \<Rightarrow> string list" where
  "negativeTags opts =
     (if isFemaleSinger opts then [''male_vocals'', ''male_voice'', ''male_singer'']
      else [''female_vocals'', ''female_voice'', ''female_singer''])"

definition voiceDescription :: "selectedOptions \<Rightarrow> string" where
  "voiceDescription opts =
     (if isFemaleSinger opts then ''female vocal, female singer, female voice''
      else ''male vocal, male singer, male voice'')"

text \<open>\<open>lyrics\<close> is the state cell \<open>prompt\<close>; \<open>rnd\<close> is \<open>Math.floor(Math.random() * 1000000)\<close>.\<close>

definition requestData :: "selectedOptions \<Rightarrow> string \<Rightarrow> nat \<Rightarrow> request" where
  "requestData opts lyrics rnd =
     \<lparr> model = ''music-u'',
       task_type = ''generate_music'',
       input =
         \<lparr> gpt_description_prompt =
             voiceDescription opts @ '', '' @ genre opts @ '', '' @ mood opts @ '', '' @ era opts,
           lyrics_type = ''user'',
           make_instrumental = False,
           negative_tags = join '','' (negativeTags opts),
           in_prompt = lyrics,
           seed = rnd,
           in_tags = join '','' (voiceTags opts) \<rparr> \<rparr>"

text \<open>
  \<open>generateMusic\<close> up to the start of its polling interval. \<open>post\<close> is the call
  \<open>axios.post\<close>, answering with \<open>response.data.task_id\<close>; \<open>startTime\<close> is the clock
  before the call and \<open>now\<close> the clock after it; \<open>h\<close> is the \<open>history\<close> of the render
  whose button was clicked. Notifications are not part of the state.
\<close>

definition generateMusic ::
  "bool \<Rightarrow> (item list \<Rightarrow> string) \<Rightarrow> (request \<Rightarrow> string http) \<Rightarrow> int \<Rightarrow> int \<Rightarrow> nat \<Rightarrow>
   item list \<Rightarrow> selectedOptions \<Rightarrow> string \<Rightarrow> app \<Rightarrow> app" where
  "generateMusic APP_ENABLED stringify post startTime now rnd h opts lyrics st =
     (if \<not> APP_ENABLED then st
      else
        (let st1 = st\<lparr> isLoading := True \<rparr>
         in case post (requestData opts lyrics rnd) of
              Threw \<Rightarrow> st1\<lparr> isLoading := False \<rparr>
            | Response taskId \<Rightarrow>
                (let historyItem =
                       \<lparr> item_id = Some taskId, prompt = Some lyrics,
                         status = Some ''pending'', timestamp = Some startTime,
                         completedAt = None, songs = None, error = None,
                         tags = Some (voiceType opts @ '', '' @ genre opts @ '', '' @
                                      mood opts @ '', '' @ era opts) \<rparr>;
                     st2 = addToHistory stringify now h historyItem st1
                 in st2\<lparr> pendingCount := pendingCount st2 + 1 \<rparr>)))"

text \<open>
  The body of \<open>statusResponse.data\<close> as the polling callback of \<open>generateMusic\<close> reads
  it: \<open>status\<close>, \<open>output\<close> (which a reply may lack), \<open>error?.message\<close> and the two
  times of \<open>meta\<close>, each already converted by \<open>new Date(...).getTime()\<close> and \<open>None\<close> when
  \<open>meta\<close> or the field is missing or empty.
\<close>

record statusData =
  data_status :: string
  data_output :: "taskOutput option"
  data_error :: "string option"
  started_at :: "int option"
  ended_at :: "int option"

text \<open>
  One run of the polling callback of \<open>generateMusic\<close> for the task \<open>taskId\<close> submitted
  at \<open>startTime\<close>. It calls the \<open>updateHistoryItem\<close> of the render that submitted the
  task, whose \<open>history\<close> is \<open>h\<close>. In the completed branch the argument
  \<open>songs: output.songs\<close> throws when the reply has no \<open>output\<close>; the \<open>catch\<close> of the
  callback logs the error, after \<open>pendingCount\<close> and \<open>completedTasksRef\<close> were updated
  and before the history and \<open>isLoading\<close> are.
\<close>

definition pollTick ::
  "(item list \<Rightarrow> string) \<Rightarrow> int \<Rightarrow> item list \<Rightarrow> string \<Rightarrow> int \<Rightarrow> statusData http \<Rightarrow> app \<Rightarrow> app" where
  "pollTick stringify now h taskId startTime resp st =
     (case resp of
        Threw \<Rightarrow> st
      | Response d \<Rightarrow>
          if data_status d = ''completed'' then
            (let st1 = st\<lparr> pendingCount := pendingCount st - 1,
                          completedTasks := insert taskId (completedTasks st) \<rparr>;
                 endTime = (case ended_at d of Some e \<Rightarrow> e | None \<Rightarrow> now);
                 startTimeFromMeta = (case started_at d of Some s \<Rightarrow> s | None \<Rightarrow> startTime)
             in case data_output d of
                  None \<Rightarrow> st1
                | Some out \<Rightarrow>
                    (let st2 = updateHistoryItem stringify now h taskId
                                 \<lparr> p_id = None, p_prompt = None,
                                   p_status = Some (Some ''completed''),
                                   p_timestamp = Some (Some startTimeFromMeta),
                                   p_completedAt = Some (Some endTime),
                                   p_songs = Some (output_songs out),
                                   p_error = None, p_tags = None \<rparr> st1
                     in st2\<lparr> isLoading := False \<rparr>))
          else if data_status d = ''failed'' then
            (let st1 = st\<lparr> pendingCount := pendingCount st - 1 \<rparr>;
                 st2 = updateHistoryItem stringify now h taskId
                         \<lparr> p_id = None, p_prompt = None,
                           p_status = Some (Some ''failed''),
                           p_timestamp = None, p_completedAt = None, p_songs = None,
                           p_error = Some (Some (case data_error d of
                                                   None \<Rightarrow> ''Failed to generate music''
                                                 | Some m \<Rightarrow> if m = [] then ''Failed to generate music''
                                                            else m)),
                           p_tags = None \<rparr> st1
             in st2\<lparr> isLoading := False \<rparr>)
          else st)"

text \<open>The attribute \<open>disabled\<close> of the button that calls \<open>generateMusic\<close>.\<close>

definition generateDisabled :: "app \<Rightarrow> bool" where
  "generateDisabled st = (isLoading st \<or> pendingCount st > 0)"

text \<open>
  A click on that button: a disabled button does not call its handler. The handler is
  the \<open>generateMusic\<close> of the current render, so its \<open>history\<close> is \<open>history st\<close>.
\<close>

definition clickGenerate ::
  "bool \<Rightarrow> (item list \<Rightarrow> string) \<Rightarrow> (request \<Rightarrow> string http) \<Rightarrow> int \<Rightarrow> int \<Rightarrow> nat \<Rightarrow>
   selectedOptions \<Rightarrow> string \<Rightarrow> app \<Rightarrow> app" where
  "clickGenerate APP_ENABLED stringify post startTime now rnd opts lyrics st =
     (if generateDisabled st then st
      else generateMusic APP_ENABLED stringify post startTime now rnd (history st) opts lyrics st)"

section \<open>Predicates of the properties\<close>



section \<open>Sample data\<close>

text \<open>Concrete inputs, used where a property is evaluated.\<close>

definition sampleItem :: "string \<Rightarrow> string \<Rightarrow> int \<Rightarrow> item" where
  "sampleItem i s t =
     \<lparr> item_id = Some i, prompt = Some ''la la'', status = Some s, timestamp = Some t,
       completedAt = None, songs = None, error = None, tags = None \<rparr>"

definition sampleDone :: "string \<Rightarrow> int \<Rightarrow> int \<Rightarrow> item" where
  "sampleDone i t c =
     \<lparr> item_id = Some i, prompt = Some ''la la'', status = Some ''completed'',
       timestamp = Some t, completedAt = Some c, songs = Some [], error = None,
       tags = None \<rparr>"

definition sampleStringify :: "item list \<Rightarrow> string" where
  "sampleStringify h = ''json''"

text \<open>A storage text that decodes to one pending item; every other text is rejected.\<close>

definition sampleParse :: "string \<Rightarrow> item list option" where
  "sampleParse s = (if s = ''json'' then Some [sampleItem ''t1'' ''pending'' 1000] else None)"

text \<open>
  The task endpoint: \<open>t1\<close> completed with an \<open>output\<close> that has no \<open>songs\<close>, \<open>t2\<close>
  failed, \<open>t3\<close> in progress, \<open>t5\<close> completed without \<open>output\<close>, \<open>t9\<close> completed with
  an empty song list; every other request throws.
\<close>

definition sampleGet :: "string \<Rightarrow> task http" where
  "sampleGet url =
     (if url = ''https://api.piapi.ai/api/v1/task/t1''
      then Response \<lparr> task_status = ''completed'',
                      task_output = Some \<lparr> output_songs = None \<rparr>, error_message = None \<rparr>
      else if url = ''https://api.piapi.ai/api/v1/task/t2''
      then Response \<lparr> task_status = ''failed'', task_output = None,
                      error_message = Some ''no credit'' \<rparr>
      else if url = ''https://api.piapi.ai/api/v1/task/t3''
      then Response \<lparr> task_status = ''processing'', task_output = None, error_message = None \<rparr>
      else if url = ''https://api.piapi.ai/api/v1/task/t5''
      then Response \<lparr> task_status = ''completed'', task_output = None, error_message = None \<rparr>
      else if url = ''https://api.piapi.ai/api/v1/task/t9''
      then Response \<lparr> task_status = ''completed'',
                      task_output = Some \<lparr> output_songs = Some [] \<rparr>, error_message = None \<rparr>
      else Threw)"

definition samplePost :: "request \<Rightarrow> string http" where
  "samplePost r = Response ''t9''"

definition refusingPost :: "request \<Rightarrow> string http" where
  "refusingPost r = Threw"

definition sampleOptions :: selectedOptions where
  "sampleOptions = \<lparr> genre = ''pop'', voiceType = ''female'', mood = ''happy'', era = ''modern'' \<rparr>"

definition maleOptions :: selectedOptions where
  "maleOptions = \<lparr> genre = ''rock'', voiceType = ''male'', mood = ''calm'', era = ''1980s'' \<rparr>"

text \<open>The page opened over a storage that holds one pending item.\<close>

definition reloaded :: app where
  "reloaded = mount sampleParse (Some ''json'')"

text \<open>
  The item that \<open>generateMusic\<close> stores for the task \<open>t9\<close> submitted at time 1000 with
  \<open>sampleOptions\<close>, and a codec that encodes the list of that one item and decodes a
  few more stored texts.
\<close>

definition pendingT9 :: item where
  "pendingT9 =
     \<lparr> item_id = Some ''t9'', prompt = Some ''la la'', status = Some ''pending'',
       timestamp = Some 1000, completedAt = None, songs = None, error = None,
       tags = Some ''female, pop, happy, modern'' \<rparr>"

definition runStringify :: "item list \<Rightarrow> string" where
  "runStringify h = (if h = [pendingT9] then ''t9 pending'' else ''other'')"

definition storedLists :: "string \<Rightarrow> item list option" where
  "storedLists s =
     (if s = ''t9 pending'' then Some [pendingT9]
      else if s = ''a done'' then Some [sampleDone ''a'' 5 8]
      else if s = ''legacy'' then Some [sampleItem ''old'' ''completed'' 5]
      else if s = ''t1 t5''
      then Some [sampleItem ''t1'' ''pending'' 1000, sampleItem ''t5'' ''pending'' 1000]
      else None)"

text \<open>A reply to the polling callback: completed, with an empty song list and no times.\<close>

definition completedReply :: statusData where
  "completedReply =
     \<lparr> data_status = ''completed'', data_output = Some \<lparr> output_songs = Some [] \<rparr>,
       data_error = None, started_at = None, ended_at = None \<rparr>"

text \<open>
  A run: the page is opened over a stored list of one completed item \<open>a\<close>; a generation
  is submitted and gets the id \<open>t9\<close>; the user clears the history; then the polling
  callback of that submission receives \<open>completedReply\<close>. The callback belongs to the
  render that submitted, whose \<open>history\<close> is the list of \<open>loadedOne\<close>.
\<close>

definition loadedOne :: app where
  "loadedOne = mount storedLists (Some ''a done'')"

definition submittedOver :: app where
  "submittedOver =
     clickGenerate True sampleStringify samplePost 1000 1001 7 sampleOptions ''la la'' loadedOne"

definition clearedAll :: app where
  "clearedAll = clearHistory sampleStringify 1500 submittedOver"

definition polledAfterClear :: app where
  "polledAfterClear =
     pollTick sampleStringify 2000 (history loadedOne) ''t9'' 1000 (Response completedReply)
       clearedAll"

text \<open>
  A run: on a fresh page a generation is submitted and gets the id \<open>t9\<close>; a round of the
  reconciliation poller at time 3000 finds it completed; at the same time the polling
  callback of the submission receives \<open>completedReply\<close>. The callback belongs to the
  render that submitted, whose \<open>history\<close> is the empty list of the fresh page. The
  update that the callback applies is \<open>completedUpdate\<close>.
\<close>

definition submitted :: app where
  "submitted =
     clickGenerate True runStringify samplePost 1000 1001 7 sampleOptions ''la la''
       (initialState None)"

definition reconciled :: app where
  "reconciled = updateHistoryWithCompletedTasks storedLists runStringify sampleGet 3000 submitted"

definition polledAgain :: app where
  "polledAgain =
     pollTick runStringify 3000 (history (initialState None)) ''t9'' 1000
       (Response completedReply) reconciled"

definition completedUpdate :: partial where
  "completedUpdate =
     \<lparr> p_id = None, p_prompt = None, p_status = Some (Some ''completed''),
       p_timestamp = Some (Some 1000), p_completedAt = Some (Some 3000),
       p_songs = Some (Some []), p_error = None, p_tags = None \<rparr>"

text \<open>The page opened over a storage that holds the pending items \<open>t1\<close> and \<open>t5\<close>.\<close>

definition roundInput :: app where
  "roundInput = mount storedLists (Some ''t1 t5'')"




section \<open>The form of saved lists\<close>

text \<open>
  Every list that \<open>updateHistory\<close> writes is in the form \<open>saved\<close> (the clock never
  reads zero), saving such a list again changes nothing, and loading a storage that
  holds such a list yields it.
\<close>

lemma validItem_saved: "now \<noteq> 0 \<Longrightarrow> savedItem (validItem now it)"
  by (simp add: validItem_def savedItem_def split: option.splits)

lemma validItem_fixed: "savedItem it \<Longrightarrow> validItem now it = it"
  by (cases it) (auto simp: validItem_def savedItem_def split: option.splits)

lemma map_validItem_fixed: "saved h \<Longrightarrow> map (validItem now) h = h"
  by (induction h) (simp_all add: saved_def validItem_fixed)

lemma map_validItem_saved: "now \<noteq> 0 \<Longrightarrow> saved (map (validItem now) h)"
  by (induction h) (simp_all add: saved_def validItem_saved)

lemma history_updateHistory:
  "history (updateHistory stringify now h st) = map (validItem now) h"
  by (simp add: updateHistory_def Let_def)

lemma storage_updateHistory:
  "storage (updateHistory stringify now h st) = Some (stringify (map (validItem now) h))"
  by (simp add: updateHistory_def Let_def)

lemma updateHistory_saved: "now \<noteq> 0 \<Longrightarrow> saved (history (updateHistory stringify now h st))"
  by (simp add: history_updateHistory map_validItem_saved)

lemma updateHistory_fixed:
  "saved h \<Longrightarrow> updateHistory stringify now h st = st\<lparr> history := h, storage := Some (stringify h) \<rparr>"
  by (simp add: updateHistory_def Let_def map_validItem_fixed)

lemma fixStatus_fixed: "savedItem it \<Longrightarrow> fixStatus it = it"
  by (cases it) (auto simp: fixStatus_def savedItem_def split: option.splits)

lemma mount_saved:
  assumes "\<And>s l. stored = Some s \<Longrightarrow> parse s = Some l \<Longrightarrow> saved l"
  shows "saved (history (mount parse stored))"
proof (cases stored)
  case None
  then show ?thesis by (simp add: mount_def loadHistory_def initialState_def saved_def)
next
  case (Some s)
  show ?thesis
  proof (cases "parse s")
    case None
    with Some show ?thesis by (simp add: mount_def loadHistory_def initialState_def saved_def)
  next
    case (Some l)
    with \<open>stored = Some s\<close> assms have "saved l" by simp
    then have "map fixStatus l = l"
      by (induction l) (simp_all add: saved_def fixStatus_fixed)
    with Some \<open>stored = Some s\<close> \<open>saved l\<close> show ?thesis
      by (simp add: mount_def loadHistory_def initialState_def saved_def)
  qed
qed


text \<open>The saved lists are exactly the lists that \<open>updateHistory\<close> can have written.\<close>

lemma saved_iff_written:
  "saved h \<longleftrightarrow> (\<exists>t h0. t \<noteq> 0 \<and> h = map (validItem t) h0)"
proof
  assume "saved h"
  then have "(1::int) \<noteq> 0 \<and> h = map (validItem 1) h"
    by (simp add: map_validItem_fixed)
  then show "\<exists>t h0. t \<noteq> 0 \<and> h = map (validItem t) h0"
    by blast
next
  assume "\<exists>t h0. t \<noteq> 0 \<and> h = map (validItem t) h0"
  then show "saved h"
    by (auto simp: map_validItem_saved)
qed

lemma operations_saved:
  assumes "now \<noteq> 0"
  shows "saved (history (addToHistory stringify now h it st))"
    and "saved (history (removeFromHistory stringify now h i st))"
    and "saved (history (updateHistoryItem stringify now h i updates st))"
    and "saved (history (clearHistory stringify now st))"
  using assms
  by (simp_all add: addToHistory_def removeFromHistory_def updateHistoryItem_def
      clearHistory_def Let_def updateHistory_saved)

section \<open>The store operations\<close>

lemma spread_map_absent:
  "Some i \<notin> set (map item_id h) \<Longrightarrow>
   map (\<lambda>it. if item_id it = Some i then spread it updates else it) h = h"
  by (induction h) auto

lemma filter_absent:
  "Some i \<notin> set (map item_id h) \<Longrightarrow> filter (\<lambda>it. item_id it \<noteq> Some i) h = h"
  by (induction h) auto

lemma spread_map_fixed:
  "\<forall>it\<in>set h. item_id it = Some i \<longrightarrow> spread it updates = it \<Longrightarrow>
   map (\<lambda>it. if item_id it = Some i then spread it updates else it) h = h"
  by (induction h) simp_all

text \<open>
  Claim C1 says that after any \<open>add\<close> the list has at most \<open>MAX_HISTORY_ITEMS\<close> (5)
  items, the oldest being dropped when a sixth is added. \<open>addToHistory\<close> truncates
  nothing: on a list of five items it stores six, the oldest still last.
\<close>

theorem C1_add_exceeds_maximum:
  "length (history (addToHistory stringify now [a, b, c, d, e] it st)) = 6 \<and>
   last (history (addToHistory stringify now [a, b, c, d, e] it st)) = validItem now e \<and>
   \<not> length (history (addToHistory stringify now [a, b, c, d, e] it st)) \<le> MAX_HISTORY_ITEMS"
  by (simp add: addToHistory_def Let_def history_updateHistory MAX_HISTORY_ITEMS_def)

text \<open>With an id that no item has, both operations save the list they were given.\<close>

lemma missing_id_resaves:
  "Some i \<notin> set (map item_id h) \<Longrightarrow>
   updateHistoryItem stringify now h i updates st = updateHistory stringify now h st \<and>
   removeFromHistory stringify now h i st = updateHistory stringify now h st"
  by (simp add: updateHistoryItem_def removeFromHistory_def Let_def spread_map_absent
      filter_absent)

text \<open>
  For a handler of the current render over a saved list that the storage mirrors, an
  id that no item has makes both operations leave the state as it is.
\<close>

lemma current_render_missing_id:
  assumes "saved (history st)" and "storage st = Some (stringify (history st))"
    and "Some i \<notin> set (map item_id (history st))"
  shows "updateHistoryItem stringify now (history st) i updates st = st \<and>
         removeFromHistory stringify now (history st) i st = st"
  using assms
  by (simp add: updateHistoryItem_def removeFromHistory_def Let_def spread_map_absent
      filter_absent updateHistory_fixed)

text \<open>
  Claim C5 says that \<open>update(id, fields)\<close> with an id that the stored list does not hold
  leaves the list unchanged. \<open>updateHistoryItem\<close> maps the \<open>history\<close> of the render that
  created it and saves the result, and its only caller is the polling callback of
  \<open>generateMusic\<close>, which belongs to the render that submitted the task. In the run
  \<open>loadedOne\<close>, \<open>submittedOver\<close>, \<open>clearedAll\<close>, \<open>polledAfterClear\<close> the stored list is
  empty and does not hold \<open>t9\<close> when the callback updates \<open>t9\<close>; afterwards the stored
  list holds the item \<open>a\<close> again. (\<open>removeFromHistory\<close> is called from the buttons of
  the current render, for which \<open>current_render_missing_id\<close> holds.)
\<close>

theorem C5_absent_id_overwrites_store:
  "history submittedOver = [pendingT9, sampleDone ''a'' 5 8] \<and>
   history clearedAll = [] \<and>
   Some ''t9'' \<notin> set (map item_id (history clearedAll)) \<and>
   history polledAfterClear = [sampleDone ''a'' 5 8] \<and>
   history polledAfterClear \<noteq> history clearedAll"
proof -
  have l: "history loadedOne = [sampleDone ''a'' 5 8] \<and> \<not> generateDisabled loadedOne"
    by (simp add: loadedOne_def mount_def loadHistory_def initialState_def storedLists_def
        fixStatus_def sampleDone_def generateDisabled_def)
  have s: "history submittedOver = [pendingT9, sampleDone ''a'' 5 8]"
    by (simp add: submittedOver_def clickGenerate_def l generateMusic_def samplePost_def
        Let_def addToHistory_def history_updateHistory validItem_def sampleDone_def
        sampleOptions_def pendingT9_def)
  have c: "history clearedAll = []"
    by (simp add: clearedAll_def clearHistory_def history_updateHistory)
  have p: "history polledAfterClear = [sampleDone ''a'' 5 8]"
    by (simp add: polledAfterClear_def pollTick_def completedReply_def Let_def l
        updateHistoryItem_def history_updateHistory validItem_def sampleDone_def)
  show ?thesis using s c p by simp
qed

text \<open>
  Claim C7: \<open>updateHistory\<close> normalizes every item before it persists the list. A
  missing status becomes \<open>pending\<close>, a missing timestamp becomes the current time, a
  status other than \<open>pending\<close>, \<open>completed\<close> and \<open>failed\<close> becomes \<open>pending\<close> and one of
  the three stays; the list written to storage is the list set as the state.
\<close>

theorem C7_save_normalizes:
  "history (updateHistory stringify now h st) = map (validItem now) h \<and>
   storage (updateHistory stringify now h st)
     = Some (stringify (history (updateHistory stringify now h st))) \<and>
   (status a = None \<longrightarrow> status (validItem now a) = Some ''pending'') \<and>
   (timestamp b = None \<longrightarrow> timestamp (validItem now b) = Some now) \<and>
   (status c = Some s \<and> s \<noteq> ''pending'' \<and> s \<noteq> ''completed'' \<and> s \<noteq> ''failed''
      \<longrightarrow> status (validItem now c) = Some ''pending'') \<and>
   (status d = Some s' \<and> (s' = ''pending'' \<or> s' = ''completed'' \<or> s' = ''failed'')
      \<longrightarrow> status (validItem now d) = Some s')"
  by (auto simp: history_updateHistory storage_updateHistory validItem_def)

theorem C7_save_normalizes_witness:
  "status (sampleItem ''a'' ''x'' 5\<lparr> status := None \<rparr>) = None \<and>
   status (validItem 9 (sampleItem ''a'' ''x'' 5\<lparr> status := None \<rparr>)) = Some ''pending'' \<and>
   timestamp (sampleItem ''a'' ''x'' 5\<lparr> timestamp := None \<rparr>) = None \<and>
   timestamp (validItem 9 (sampleItem ''a'' ''x'' 5\<lparr> timestamp := None \<rparr>)) = Some 9 \<and>
   status (sampleItem ''a'' ''queued'' 5) = Some ''queued'' \<and>
   status (validItem 9 (sampleItem ''a'' ''queued'' 5)) = Some ''pending'' \<and>
   status (sampleItem ''a'' ''failed'' 5) = Some ''failed'' \<and>
   status (validItem 9 (sampleItem ''a'' ''failed'' 5)) = Some ''failed''"
  using C7_save_normalizes [of sampleStringify 9 "[]" "initialState None"
      "sampleItem ''a'' ''x'' 5\<lparr> status := None \<rparr>"
      "sampleItem ''a'' ''x'' 5\<lparr> timestamp := None \<rparr>"
      "sampleItem ''a'' ''queued'' 5" "''queued''" "sampleItem ''a'' ''failed'' 5" "''failed''"]
  by (simp add: sampleItem_def)

text \<open>
  An update whose fields the item with that id already carries, applied to a saved
  list by a handler that holds that list, stores the same list.
\<close>

lemma update_with_carried_fields:
  assumes "saved h"
    and "\<forall>it\<in>set h. item_id it = Some i \<longrightarrow> spread it updates = it"
  shows "updateHistoryItem stringify now h i updates st
           = st\<lparr> history := h, storage := Some (stringify h) \<rparr>"
  using assms
  by (simp add: updateHistoryItem_def Let_def spread_map_fixed updateHistory_fixed)

text \<open>
  The same seen from the first application: on a saved list, a completed update whose
  timestamp, if it sets one, is not zero, applied a second time to the result of its
  first application, gives that result again.
\<close>

lemma spread_twice: "spread (spread it u) u = spread it u"
  by (simp add: spread_def over_def split: option.splits)

lemma spread_saved:
  assumes "savedItem it" and "p_id u = None" and "p_prompt u = None"
    and "p_status u = Some (Some ''completed'')"
    and "p_timestamp u = None \<or> (\<exists>t. p_timestamp u = Some (Some t) \<and> t \<noteq> 0)"
  shows "savedItem (spread it u) \<and> item_id (spread it u) = item_id it"
  using assms by (auto simp: savedItem_def spread_def over_def split: option.splits)

lemma updateHistoryItem_twice:
  assumes "saved h" and "p_id u = None" and "p_prompt u = None"
    and "p_status u = Some (Some ''completed'')"
    and "p_timestamp u = None \<or> (\<exists>t. p_timestamp u = Some (Some t) \<and> t \<noteq> 0)"
  shows "updateHistoryItem stringify t2
           (history (updateHistoryItem stringify t1 h i u st)) i u
           (updateHistoryItem stringify t1 h i u st)
         = updateHistoryItem stringify t1 h i u st"
proof -
  let ?f = "\<lambda>it. if item_id it = Some i then spread it u else it"
  have sv: "saved (map ?f h)"
    using assms(1) spread_saved [OF _ assms(2-5)]
    by (induction h) (simp_all add: saved_def)
  have again: "map ?f (map ?f h) = map ?f h"
    using assms(1) spread_saved [OF _ assms(2-5)]
    by (induction h) (simp_all add: saved_def spread_twice)
  have first: "updateHistoryItem stringify t1 h i u st
                 = st\<lparr> history := map ?f h, storage := Some (stringify (map ?f h)) \<rparr>"
    by (simp add: updateHistoryItem_def Let_def updateHistory_fixed [OF sv])
  show ?thesis
    unfolding first
    by (simp add: updateHistoryItem_def Let_def again updateHistory_fixed [OF sv] del: map_map)
qed


text \<open>
  Claim C9 says that applying a terminal-state update to an item that is already in
  that state with those fields leaves every stored field of the item unchanged. In
  the run \<open>submitted\<close>, \<open>reconciled\<close>, \<open>polledAgain\<close> the reconciliation poller has
  stored \<open>t9\<close> as completed, and the polling callback then applies \<open>completedUpdate\<close>,
  whose fields the stored item already carries. The callback maps the list of the
  render that submitted, which is empty, and saves it: the stored item is gone.
\<close>

theorem C9_identical_update_deletes_item:
  "history submitted = [pendingT9] \<and>
   history reconciled
     = [pendingT9\<lparr> status := Some ''completed'', songs := Some [], completedAt := Some 3000 \<rparr>] \<and>
   spread (pendingT9\<lparr> status := Some ''completed'', songs := Some [], completedAt := Some 3000 \<rparr>)
     completedUpdate
     = pendingT9\<lparr> status := Some ''completed'', songs := Some [], completedAt := Some 3000 \<rparr> \<and>
   history polledAgain
     = history (updateHistoryItem runStringify 3000 [] ''t9'' completedUpdate reconciled) \<and>
   history polledAgain = []"
proof -
  have s: "history submitted = [pendingT9] \<and> storage submitted = Some ''t9 pending''"
    by (simp add: submitted_def clickGenerate_def generateDisabled_def initialState_def
        generateMusic_def samplePost_def Let_def addToHistory_def updateHistory_def
        validItem_def sampleOptions_def pendingT9_def runStringify_def)
  have g: "fetchTaskDetails sampleGet (item_id pendingT9)
             = Some \<lparr> task_status = ''completed'',
                      task_output = Some \<lparr> output_songs = Some [] \<rparr>, error_message = None \<rparr>"
    by (simp add: fetchTaskDetails_def sampleGet_def interpolate_def pendingT9_def)
  have r: "history reconciled
     = [pendingT9\<lparr> status := Some ''completed'', songs := Some [], completedAt := Some 3000 \<rparr>]"
    by (simp add: reconciled_def updateHistoryWithCompletedTasks_def s storedLists_def Let_def
        setsHasUpdates_def checkItem_def g history_updateHistory validItem_def)
      (simp add: pendingT9_def)
  have f: "spread (pendingT9\<lparr> status := Some ''completed'', songs := Some [],
                     completedAt := Some 3000 \<rparr>) completedUpdate
     = pendingT9\<lparr> status := Some ''completed'', songs := Some [], completedAt := Some 3000 \<rparr>"
    by (simp add: spread_def over_def completedUpdate_def pendingT9_def)
  have u: "history (updateHistoryItem runStringify 3000 [] ''t9'' completedUpdate reconciled) = []"
    by (simp add: updateHistoryItem_def history_updateHistory)
  have p: "history polledAgain = []"
    by (simp add: polledAgain_def pollTick_def completedReply_def Let_def initialState_def
        updateHistoryItem_def history_updateHistory)
  show ?thesis using s r f u p by simp
qed

text \<open>
  Claim C10: whatever status and \<open>completedAt\<close> the item given to \<open>addToHistory\<close>
  carries, the entry stored has status \<open>pending\<close> and no \<open>completedAt\<close>, and it stands
  in front of the existing list, whose items are stored as they were once saved.
\<close>

theorem C10_add_forces_pending:
  "history (addToHistory stringify now h it st)
     = validItem now (it\<lparr> status := Some ''pending'', completedAt := None \<rparr>)
       # map (validItem now) h \<and>
   status (hd (history (addToHistory stringify now h it st))) = Some ''pending'' \<and>
   completedAt (hd (history (addToHistory stringify now h it st))) = None \<and>
   (saved h \<longrightarrow> tl (history (addToHistory stringify now h it st)) = h)"
  by (simp add: addToHistory_def Let_def history_updateHistory map_validItem_fixed validItem_def)

theorem C10_add_forces_pending_witness:
  "saved [sampleItem ''old'' ''failed'' 5] \<and>
   history (addToHistory sampleStringify 9 [sampleItem ''old'' ''failed'' 5]
              (sampleDone ''new'' 7 8) (initialState None))
     = [sampleDone ''new'' 7 8\<lparr> status := Some ''pending'', completedAt := None \<rparr>,
        sampleItem ''old'' ''failed'' 5]"
proof -
  have s: "saved [sampleItem ''old'' ''failed'' 5]"
    by (simp add: saved_def savedItem_def sampleItem_def)
  show ?thesis
    using s C10_add_forces_pending [of sampleStringify 9 "[sampleItem ''old'' ''failed'' 5]"
        "sampleDone ''new'' 7 8" "initialState None"]
    by (simp add: validItem_def sampleDone_def sampleItem_def)
qed

section \<open>Loading\<close>

text \<open>
  Claim C6: when the text stored under the history key does not parse on load, the
  component starts with the empty list and the key is removed from storage. Nothing
  of the text is recovered. (The empty text is never handed to the parser: it is
  falsy, and the effect leaves it where it is.)
\<close>

theorem C6_corrupted_storage_cleared:
  assumes "s \<noteq> []" and "parse s = None"
  shows "history (mount parse (Some s)) = [] \<and> storage (mount parse (Some s)) = None"
  using assms by (simp add: mount_def loadHistory_def initialState_def)

theorem C6_corrupted_storage_cleared_witness:
  "''not json'' \<noteq> [] \<and> sampleParse ''not json'' = None \<and>
   history (mount sampleParse (Some ''not json'')) = [] \<and>
   storage (mount sampleParse (Some ''not json'')) = None"
proof -
  have a: "''not json'' \<noteq> []" by simp
  have b: "sampleParse ''not json'' = None" by (simp add: sampleParse_def)
  show ?thesis
    using a b C6_corrupted_storage_cleared [of "''not json''" sampleParse] by simp
qed

section \<open>The reconciliation poller\<close>

lemma sampleGet_t1:
  "fetchTaskDetails sampleGet (Some ''t1'')
     = Some \<lparr> task_status = ''completed'', task_output = Some \<lparr> output_songs = None \<rparr>,
              error_message = None \<rparr>"
  by (simp add: fetchTaskDetails_def sampleGet_def interpolate_def)

lemma sampleGet_t5:
  "fetchTaskDetails sampleGet (Some ''t5'')
     = Some \<lparr> task_status = ''completed'', task_output = None, error_message = None \<rparr>"
  by (simp add: fetchTaskDetails_def sampleGet_def interpolate_def)

text \<open>
  The flag \<open>hasUpdates\<close> is set by exactly the items for which the callback does not
  return its argument.
\<close>

lemma setsHasUpdates_iff: "setsHasUpdates get it \<longleftrightarrow> checkItem get now it \<noteq> Some it"
  by (cases it)
    (auto simp: setsHasUpdates_def checkItem_def Let_def split: option.splits if_splits)





text \<open>
  Claim C2 says that a pending item whose task the poller finds completed is set to
  completed, with the returned songs or the empty list when none is provided. The
  callback reads \<open>taskDetails.data.output.songs\<close> with a default for missing \<open>songs\<close>
  but no guard for a missing \<open>output\<close>. A round over the stored item \<open>t1\<close>, whose
  completed reply has an \<open>output\<close> without songs, stores it as completed with the
  empty list. The completed reply for \<open>t5\<close> has no \<open>output\<close>: the callback throws,
  and the round over the stored items \<open>t1\<close> and \<open>t5\<close> saves nothing, so that both
  stay pending.
\<close>

theorem C2_completed_reply_without_output:
  "history (updateHistoryWithCompletedTasks sampleParse sampleStringify sampleGet 3000 reloaded)
     = [sampleItem ''t1'' ''completed'' 1000\<lparr> songs := Some [], completedAt := Some 3000 \<rparr>] \<and>
   history roundInput
     = [sampleItem ''t1'' ''pending'' 1000, sampleItem ''t5'' ''pending'' 1000] \<and>
   fetchTaskDetails sampleGet (Some ''t5'')
     = Some \<lparr> task_status = ''completed'', task_output = None, error_message = None \<rparr> \<and>
   checkItem sampleGet 3000 (sampleItem ''t5'' ''pending'' 1000) = None \<and>
   updateHistoryWithCompletedTasks storedLists sampleStringify sampleGet 3000 roundInput
     = roundInput"
proof -
  have r: "history roundInput
             = [sampleItem ''t1'' ''pending'' 1000, sampleItem ''t5'' ''pending'' 1000] \<and>
           storage roundInput = Some ''t1 t5''"
    by (simp add: roundInput_def mount_def loadHistory_def initialState_def storedLists_def
        fixStatus_def sampleItem_def)
  have c: "checkItem sampleGet 3000 (sampleItem ''t5'' ''pending'' 1000) = None"
    by (simp add: checkItem_def Let_def sampleGet_t5 sampleItem_def)
  have u: "updateHistoryWithCompletedTasks storedLists sampleStringify sampleGet 3000 roundInput
             = roundInput"
    by (simp add: updateHistoryWithCompletedTasks_def r storedLists_def Let_def c
        split: option.splits)
  have l: "history reloaded = [sampleItem ''t1'' ''pending'' 1000] \<and>
           storage reloaded = Some ''json''"
    by (simp add: reloaded_def mount_def loadHistory_def initialState_def sampleParse_def
        fixStatus_def sampleItem_def)
  have k: "checkItem sampleGet 3000 (sampleItem ''t1'' ''pending'' 1000)
             = Some (sampleItem ''t1'' ''completed'' 1000
                       \<lparr> songs := Some [], completedAt := Some 3000 \<rparr>)"
    by (simp add: checkItem_def Let_def sampleGet_t1 sampleItem_def)
  have hu: "setsHasUpdates sampleGet (sampleItem ''t1'' ''pending'' 1000)"
    by (simp add: setsHasUpdates_def sampleGet_t1 sampleItem_def)
  have v: "validItem 3000
             (sampleItem ''t1'' ''completed'' 1000\<lparr> songs := Some [], completedAt := Some 3000 \<rparr>)
           = sampleItem ''t1'' ''completed'' 1000\<lparr> songs := Some [], completedAt := Some 3000 \<rparr>"
    by (simp add: validItem_def sampleItem_def)
  have g: "history (updateHistoryWithCompletedTasks sampleParse sampleStringify sampleGet 3000
                      reloaded)
     = [sampleItem ''t1'' ''completed'' 1000\<lparr> songs := Some [], completedAt := Some 3000 \<rparr>]"
    by (simp add: updateHistoryWithCompletedTasks_def Let_def l sampleParse_def hu k
        history_updateHistory v)
  show ?thesis using g r c u sampleGet_t5 by simp
qed

section \<open>Completed items\<close>












section \<open>Submitting\<close>

text \<open>
  Claim C8: a generation submitted with \<open>voiceType = "female"\<close> posts a request whose
  \<open>tags\<close> are \<open>female_vocals,female_voice,female_singer\<close> and whose \<open>negative_tags\<close> are
  \<open>male_vocals,male_voice,male_singer\<close>; with any other voice type, \<open>male\<close> among
  them, the request has the male tags and the female ones as negative tags. The two
  tag lists share no tag. \<open>generateMusic\<close> posts that request: the id that the call
  answers for it is the id of the item at the head of the stored history, and when
  the call throws for it nothing is stored.
\<close>

theorem C8_voice_tags:
  "(voiceType opts = ''female'' \<longrightarrow>
      in_tags (input (requestData opts lyrics rnd)) = ''female_vocals,female_voice,female_singer'' \<and>
      negative_tags (input (requestData opts lyrics rnd)) = ''male_vocals,male_voice,male_singer'') \<and>
   (voiceType opts \<noteq> ''female'' \<longrightarrow>
      in_tags (input (requestData opts lyrics rnd)) = ''male_vocals,male_voice,male_singer'' \<and>
      negative_tags (input (requestData opts lyrics rnd))
        = ''female_vocals,female_voice,female_singer'') \<and>
   in_tags (input (requestData opts lyrics rnd)) = join '','' (voiceTags opts) \<and>
   negative_tags (input (requestData opts lyrics rnd)) = join '','' (negativeTags opts) \<and>
   set (voiceTags opts) \<inter> set (negativeTags opts) = {} \<and>
   (APP_ENABLED \<and> post (requestData opts lyrics rnd) = Response taskId \<longrightarrow>
      item_id (hd (history
        (generateMusic APP_ENABLED stringify post startTime now rnd h opts lyrics st)))
        = Some taskId \<and>
      pendingCount (generateMusic APP_ENABLED stringify post startTime now rnd h opts lyrics st)
        = pendingCount st + 1) \<and>
   (APP_ENABLED \<and> post (requestData opts lyrics rnd) = Threw \<longrightarrow>
      generateMusic APP_ENABLED stringify post startTime now rnd h opts lyrics st
        = st\<lparr> isLoading := False \<rparr>)"
proof -
  have tags: "(voiceType opts = ''female'' \<longrightarrow>
      in_tags (input (requestData opts lyrics rnd)) = ''female_vocals,female_voice,female_singer'' \<and>
      negative_tags (input (requestData opts lyrics rnd)) = ''male_vocals,male_voice,male_singer'') \<and>
   (voiceType opts \<noteq> ''female'' \<longrightarrow>
      in_tags (input (requestData opts lyrics rnd)) = ''male_vocals,male_voice,male_singer'' \<and>
      negative_tags (input (requestData opts lyrics rnd))
        = ''female_vocals,female_voice,female_singer'') \<and>
   in_tags (input (requestData opts lyrics rnd)) = join '','' (voiceTags opts) \<and>
   negative_tags (input (requestData opts lyrics rnd)) = join '','' (negativeTags opts) \<and>
   set (voiceTags opts) \<inter> set (negativeTags opts) = {}"
    by (simp add: requestData_def voiceTags_def negativeTags_def isFemaleSinger_def)
  have ok: "item_id (hd (history
        (generateMusic APP_ENABLED stringify post startTime now rnd h opts lyrics st)))
        = Some taskId \<and>
      pendingCount (generateMusic APP_ENABLED stringify post startTime now rnd h opts lyrics st)
        = pendingCount st + 1"
    if "APP_ENABLED" "post (requestData opts lyrics rnd) = Response taskId"
    using that
    by (simp add: generateMusic_def Let_def addToHistory_def updateHistory_def validItem_def)
  have threw: "generateMusic APP_ENABLED stringify post startTime now rnd h opts lyrics st
        = st\<lparr> isLoading := False \<rparr>"
    if "APP_ENABLED" "post (requestData opts lyrics rnd) = Threw"
    using that by (simp add: generateMusic_def Let_def)
  show ?thesis using tags ok threw by blast
qed

theorem C8_voice_tags_witness:
  "voiceType sampleOptions = ''female'' \<and>
   in_tags (input (requestData sampleOptions ''la la'' 7))
     = ''female_vocals,female_voice,female_singer'' \<and>
   negative_tags (input (requestData sampleOptions ''la la'' 7))
     = ''male_vocals,male_voice,male_singer'' \<and>
   voiceType maleOptions \<noteq> ''female'' \<and>
   in_tags (input (requestData maleOptions ''la la'' 7))
     = ''male_vocals,male_voice,male_singer'' \<and>
   negative_tags (input (requestData maleOptions ''la la'' 7))
     = ''female_vocals,female_voice,female_singer'' \<and>
   samplePost (requestData sampleOptions ''la la'' 7) = Response ''t9'' \<and>
   item_id (hd (history
     (generateMusic True sampleStringify samplePost 1000 1001 7 [] sampleOptions ''la la''
        (initialState None)))) = Some ''t9'' \<and>
   refusingPost (requestData sampleOptions ''la la'' 7) = Threw \<and>
   generateMusic True sampleStringify refusingPost 1000 1001 7 [] sampleOptions ''la la''
     (initialState None) = initialState None"
proof -
  have f: "voiceType sampleOptions = ''female''"
    by (simp add: sampleOptions_def)
  have m: "voiceType maleOptions \<noteq> ''female''"
    by (simp add: maleOptions_def)
  have p: "samplePost (requestData sampleOptions ''la la'' 7) = Response ''t9''"
    by (simp add: samplePost_def)
  have q: "refusingPost (requestData sampleOptions ''la la'' 7) = Threw"
    by (simp add: refusingPost_def)
  have i: "(initialState None)\<lparr> isLoading := False \<rparr> = initialState None"
    by (simp add: initialState_def)
  show ?thesis
    using f m p q i
      C8_voice_tags [where opts = sampleOptions and lyrics = "''la la''" and rnd = 7
        and APP_ENABLED = True and post = samplePost and taskId = "''t9''"
        and stringify = sampleStringify and startTime = 1000 and now = 1001 and h = "[]"
        and st = "initialState None"]
      C8_voice_tags [where opts = maleOptions and lyrics = "''la la''" and rnd = 7]
      C8_voice_tags [where opts = sampleOptions and lyrics = "''la la''" and rnd = 7
        and APP_ENABLED = True and post = refusingPost
        and stringify = sampleStringify and startTime = 1000 and now = 1001 and h = "[]"
        and st = "initialState None"]
    by simp
qed

text \<open>
  Claim C4 says that submitting is disabled in every reachable state with a pending
  history item, also when the pending items were loaded from storage at startup. The
  button is disabled by \<open>isLoading\<close> and \<open>pendingCount\<close>, which start cleared on every
  page load: over a storage that holds a pending item the history has a pending item
  and the button is enabled.
\<close>

theorem C4_enabled_after_reload:
  "hasPendingTasks (history reloaded) \<and> \<not> generateDisabled reloaded"
  by (simp add: reloaded_def mount_def loadHistory_def initialState_def sampleParse_def
      hasPendingTasks_def generateDisabled_def fixStatus_def sampleItem_def)

text \<open>
  Claim C4, amended: submitting is disabled exactly while \<open>isLoading\<close> is set or
  \<open>pendingCount\<close> is positive. A submission that succeeds leaves a pending item and the
  button disabled; a poll of that task that fails or reports neither \<open>completed\<close> nor
  \<open>failed\<close> changes nothing; a click on the disabled button changes nothing. Right
  after a page load the button is enabled, whatever the storage holds.
\<close>

theorem C4_disabled_while_own_task_pending:
  "generateDisabled st = (isLoading st \<or> 0 < pendingCount st) \<and>
   (APP_ENABLED \<and> post (requestData opts lyrics rnd) = Response taskId \<longrightarrow>
      generateDisabled
        (generateMusic APP_ENABLED stringify post startTime now rnd h opts lyrics st) \<and>
      hasPendingTasks
        (history (generateMusic APP_ENABLED stringify post startTime now rnd h opts lyrics st))) \<and>
   (resp = Threw \<or>
    resp = Response d \<and> data_status d \<noteq> ''completed'' \<and> data_status d \<noteq> ''failed'' \<longrightarrow>
      pollTick stringify now h taskId startTime resp st = st) \<and>
   (generateDisabled st \<longrightarrow>
      clickGenerate APP_ENABLED stringify post startTime now rnd opts lyrics st = st) \<and>
   \<not> generateDisabled (mount parse stored)"
proof -
  have sub: "generateDisabled
        (generateMusic APP_ENABLED stringify post startTime now rnd h opts lyrics st) \<and>
      hasPendingTasks
        (history (generateMusic APP_ENABLED stringify post startTime now rnd h opts lyrics st))"
    if "APP_ENABLED" "post (requestData opts lyrics rnd) = Response taskId"
    using that
    by (simp add: generateMusic_def Let_def addToHistory_def updateHistory_def
        generateDisabled_def hasPendingTasks_def validItem_def)
  have tick: "pollTick stringify now h taskId startTime resp st = st"
    if "resp = Threw \<or>
        resp = Response d \<and> data_status d \<noteq> ''completed'' \<and> data_status d \<noteq> ''failed''"
    using that by (auto simp: pollTick_def)
  have start: "\<not> generateDisabled (mount parse stored)"
    by (simp add: mount_def loadHistory_def initialState_def generateDisabled_def
        split: option.splits)
  show ?thesis
    using sub tick start by (simp add: clickGenerate_def generateDisabled_def)
qed

theorem C4_disabled_while_own_task_pending_witness:
  "samplePost (requestData sampleOptions ''la la'' 7) = Response ''t9'' \<and>
   generateDisabled
     (generateMusic True sampleStringify samplePost 1000 1001 7 [] sampleOptions ''la la''
        (initialState None)) \<and>
   pollTick sampleStringify 1002 [] ''t9'' 1000 Threw
     (generateMusic True sampleStringify samplePost 1000 1001 7 [] sampleOptions ''la la''
        (initialState None))
     = generateMusic True sampleStringify samplePost 1000 1001 7 [] sampleOptions ''la la''
        (initialState None) \<and>
   clickGenerate True sampleStringify samplePost 1003 1004 8 sampleOptions ''la la''
     (generateMusic True sampleStringify samplePost 1000 1001 7 [] sampleOptions ''la la''
        (initialState None))
     = generateMusic True sampleStringify samplePost 1000 1001 7 [] sampleOptions ''la la''
        (initialState None)"
proof -
  let ?st = "generateMusic True sampleStringify samplePost 1000 1001 7 [] sampleOptions ''la la''
        (initialState None)"
  have p: "samplePost (requestData sampleOptions ''la la'' 7) = Response ''t9''"
    by (simp add: samplePost_def)
  have d: "generateDisabled ?st"
    using p C4_disabled_while_own_task_pending [where APP_ENABLED = True and post = samplePost
        and opts = sampleOptions and lyrics = "''la la''" and rnd = 7 and taskId = "''t9''"
        and stringify = sampleStringify and startTime = 1000 and now = 1001 and h = "[]"
        and st = "initialState None"]
    by simp
  show ?thesis
    using p d
      C4_disabled_while_own_task_pending [where st = ?st and resp = Threw
        and stringify = sampleStringify and now = 1002 and h = "[]" and taskId = "''t9''"
        and startTime = 1000]
      C4_disabled_while_own_task_pending [where st = ?st and APP_ENABLED = True
        and stringify = sampleStringify and post = samplePost and startTime = 1003
        and now = 1004 and rnd = 8 and opts = sampleOptions and lyrics = "''la la''"]
    by simp
qed

end
